theory Spec2Isabelle
  imports Complex_Main
begin

section \<open>Numbers and rounding (lib/utils/index.ts)\<close>

text \<open>
  JavaScript numbers are modelled as exact rationals, so the arithmetic below is the
  arithmetic the source writes, without the representation error of IEEE doubles.
  Quantities are integers (the \<open>INT\<close> columns of the schema).
  \<open>Math.round\<close> rounds to the nearest integer, halves towards plus infinity.
\<close>

definition Math_round :: "rat \<Rightarrow> int" where
  "Math_round x = \<lfloor>x + 1 / 2\<rfloor>"

definition formatDecimal :: "rat \<Rightarrow> nat \<Rightarrow> rat" where
  \<comment> \<open>\<open>Math.round(num * Math.pow(10, decimals)) / Math.pow(10, decimals)\<close>;
      every call site uses the default \<open>decimals = 2\<close>.\<close>
  "formatDecimal num decimals = of_int (Math_round (num * 10 ^ decimals)) / 10 ^ decimals"

definition calculateTax :: "rat \<Rightarrow> rat \<Rightarrow> rat" where
  "calculateTax amount taxRate = formatDecimal (amount * (taxRate / 100)) 2"

record totals =
  subtotal :: rat
  tax :: rat
  total :: rat

definition calculateLineTotal :: "rat \<Rightarrow> int \<Rightarrow> rat \<Rightarrow> totals" where
  "calculateLineTotal unitPrice quantity taxRate =
     (let subtotal = formatDecimal (unitPrice * of_int quantity) 2;
          tax = calculateTax subtotal taxRate;
          total = formatDecimal (subtotal + tax) 2
      in \<lparr>subtotal = subtotal, tax = tax, total = total\<rparr>)"

text \<open>The element type of the array that \<open>calculateCartTotals\<close> takes.\<close>

record priced_item =
  pi_quantity :: int
  pi_unit_price :: rat
  pi_tax_rate :: rat

definition cart_step :: "priced_item \<Rightarrow> rat \<times> rat \<Rightarrow> rat \<times> rat" where
  \<comment> \<open>the body of the \<open>forEach\<close>: the pair is the accumulators \<open>(subtotal, tax)\<close>\<close>
  "cart_step item acc =
     (let itemSubtotal = of_int (pi_quantity item) * pi_unit_price item;
          itemTax = calculateTax itemSubtotal (pi_tax_rate item)
      in (fst acc + itemSubtotal, snd acc + itemTax))"

definition calculateCartTotals :: "priced_item list \<Rightarrow> totals" where
  "calculateCartTotals items =
     (let acc = fold cart_step items (0, 0)
      in \<lparr>subtotal = formatDecimal (fst acc) 2,
          tax = formatDecimal (snd acc) 2,
          total = formatDecimal (fst acc + snd acc) 2\<rparr>)"

text \<open>A number with at most two decimal places, as a \<open>DECIMAL(_, 2)\<close> column holds it.\<close>

definition is_cents :: "rat \<Rightarrow> bool" where
  "is_cents x = (of_int \<lfloor>x * 100\<rfloor> = x * 100)"

section \<open>Data model (lib/types, database_schema.sql)\<close>

datatype order_status = Pending | Completed | Cancelled

datatype payment_method = Cash | Card | Mobile

datatype transaction_type = Sale | StockIn | Adjustment | Return

text \<open>
  Rows carry the columns the order and inventory actions read or write; surrogate row ids
  of \<open>order_items\<close> and \<open>inventory_logs\<close>, timestamps and display columns are left out.
\<close>

record product =
  p_id :: string
  p_name :: string
  price :: rat
  tax_rate :: rat
  quantity_on_hand :: int

text \<open>\<open>CartItem\<close>: the \<open>ci_product\<close> field is the product as the client sent it.\<close>

record cart_item =
  ci_product_id :: string
  ci_quantity :: int
  ci_product :: product

record order_row =
  o_id :: string
  cashier_id :: string
  order_number :: string
  status :: order_status
  o_subtotal :: rat
  o_tax_total :: rat
  o_total :: rat
  o_payment_method :: payment_method
  o_notes :: "string option"

record order_item =
  oi_order_id :: string
  oi_product_id :: string
  oi_quantity :: int
  oi_unit_price :: rat
  oi_tax_rate :: rat
  oi_line_total :: rat

record inventory_log =
  il_product_id :: string
  il_transaction_type :: transaction_type
  il_quantity_change :: int
  il_reference_id :: "string option"
  il_reference_type :: "string option"
  il_notes :: "string option"
  il_created_by :: string

record db =
  products :: "product list"
  orders :: "order_row list"
  order_items :: "order_item list"
  inventory_logs :: "inventory_log list"

text \<open>\<open>ApiResponse<T>\<close>, the uniform result of every server action.\<close>

record 'a api_response =
  success :: bool
  data :: "'a option"
  error :: "string option"
  message :: "string option"

definition failure :: "string \<Rightarrow> 'a api_response" where
  "failure e = \<lparr>success = False, data = None, error = Some e, message = None\<rparr>"

definition succeeded :: "'a \<Rightarrow> string \<Rightarrow> 'a api_response" where
  "succeeded d m = \<lparr>success = True, data = Some d, error = None, message = Some m\<rparr>"

definition or_default :: "string \<Rightarrow> string \<Rightarrow> string" where
  \<comment> \<open>\<open>msg || fallback\<close> on strings: the empty string is falsy\<close>
  "or_default msg fallback = (if msg = [] then fallback else msg)"

section \<open>The persistence layer\<close>

text \<open>
  Each request to the hosted database returns \<open>{data, error}\<close>. What one invocation cannot
  control is collected in an environment: whether building the client throws, which
  requests fail for reasons outside the tables (connectivity, timeouts, row security), the
  id the database generates for the new order and the number \<open>generateOrderNumber\<close>
  returns (date, time and a random suffix).
\<close>

datatype call =
    SelectProduct string
  | InsertOrder
  | InsertOrderItems
  | SoftDeleteOrder
  | SelectOrderItems
  | RpcIncrement string
  | InsertInventoryLog string
  | UpdateOrderStatus
  | UpdateProduct string

record env =
  client_error :: "string option"
  fault :: "call \<Rightarrow> string option"
  new_order_id :: string
  new_order_number :: string

definition no_rows :: string where
  "no_rows = ''JSON object requested, multiple (or no) rows returned''"

text \<open>
  A \<open>DECIMAL(p, 2)\<close> column rounds the value it is given to two decimals (halves away
  from zero) and rejects a value with more than \<open>p - 2\<close> integer digits.
\<close>

definition sql_round :: "rat \<Rightarrow> rat" where
  "sql_round x = sgn x * of_int \<lfloor>\<bar>x\<bar> * 100 + 1 / 2\<rfloor> / 100"

definition sql_decimal :: "nat \<Rightarrow> rat \<Rightarrow> rat option" where
  "sql_decimal p x = (let r = sql_round x in if \<bar>r\<bar> < 10 ^ (p - 2) then Some r else None)"

definition update_products_quantity :: "db \<Rightarrow> string \<Rightarrow> int \<Rightarrow> string + db" where
  \<comment> \<open>\<open>UPDATE products SET quantity_on_hand = quantity_on_hand + delta WHERE id = pid\<close>
      under \<open>CHECK (quantity_on_hand >= 0)\<close>\<close>
  "update_products_quantity d pid delta =
     (let ps = map (\<lambda>p. if p_id p = pid
                          then p\<lparr>quantity_on_hand := quantity_on_hand p + delta\<rparr> else p)
                (products d)
      in if list_all (\<lambda>p. 0 \<le> quantity_on_hand p) (filter (\<lambda>p. p_id p = pid) ps)
         then Inr (d\<lparr>products := ps\<rparr>)
         else Inl ''new row for relation products violates check constraint'')"

text \<open>
  The trigger function \<open>update_inventory_on_order\<close>, run \<open>AFTER INSERT ON orders\<close> for
  the new row: it loops over the order items that reference the new order at that moment.
\<close>

fun update_inventory_loop :: "order_row \<Rightarrow> (string \<times> int) list \<Rightarrow> db \<Rightarrow> string + db" where
  "update_inventory_loop new [] d = Inr d"
| "update_inventory_loop new ((v_product_id, v_quantity) # rest) d =
     (case update_products_quantity d v_product_id (- v_quantity) of
        Inl e \<Rightarrow> Inl e
      | Inr d1 \<Rightarrow>
          update_inventory_loop new rest
            (d1\<lparr>inventory_logs := inventory_logs d1 @
               [\<lparr>il_product_id = v_product_id, il_transaction_type = Sale,
                 il_quantity_change = - v_quantity, il_reference_id = Some (o_id new),
                 il_reference_type = Some ''order'', il_notes = None,
                 il_created_by = cashier_id new\<rparr>]\<rparr>))"

definition update_inventory_on_order :: "order_row \<Rightarrow> db \<Rightarrow> string + db" where
  "update_inventory_on_order new d =
     update_inventory_loop new
       (map (\<lambda>i. (oi_product_id i, oi_quantity i))
          (filter (\<lambda>i. oi_order_id i = o_id new) (order_items d)))
       d"

definition insert_order ::
  "env \<Rightarrow> db \<Rightarrow> string \<Rightarrow> string \<Rightarrow> order_status \<Rightarrow> rat \<Rightarrow> rat \<Rightarrow> rat \<Rightarrow> payment_method
     \<Rightarrow> string option \<Rightarrow> string + (db \<times> order_row)" where
  \<comment> \<open>\<open>from('orders').insert({...}).select().single()\<close>: column types, primary key,
      \<open>UNIQUE (order_number)\<close>, the three \<open>CHECK (_ >= 0)\<close>, then the trigger; an
      error in the trigger aborts the insert\<close>
  "insert_order e d cashierId orderNumber st sub taxTotal tot pm nts =
     (case fault e InsertOrder of
        Some msg \<Rightarrow> Inl msg
      | None \<Rightarrow>
          (case sql_decimal 12 sub of
             None \<Rightarrow> Inl ''numeric field overflow''
           | Some s \<Rightarrow>
          (case sql_decimal 12 taxTotal of
             None \<Rightarrow> Inl ''numeric field overflow''
           | Some t \<Rightarrow>
          (case sql_decimal 12 tot of
             None \<Rightarrow> Inl ''numeric field overflow''
           | Some tt \<Rightarrow>
               if new_order_id e \<in> set (map o_id (orders d))
               then Inl ''duplicate key value violates unique constraint orders_pkey''
               else if orderNumber \<in> set (map order_number (orders d))
               then Inl ''duplicate key value violates unique constraint orders_order_number_key''
               else if s < 0 \<or> t < 0 \<or> tt < 0
               then Inl ''new row for relation orders violates check constraint''
               else
                 (let row = \<lparr>o_id = new_order_id e, cashier_id = cashierId,
                              order_number = orderNumber, status = st, o_subtotal = s,
                              o_tax_total = t, o_total = tt, o_payment_method = pm,
                              o_notes = nts\<rparr>
                  in case update_inventory_on_order row (d\<lparr>orders := orders d @ [row]\<rparr>) of
                       Inl msg \<Rightarrow> Inl msg
                     | Inr d2 \<Rightarrow> Inr (d2, row))))))"

definition coerce_order_item :: "order_item \<Rightarrow> order_item option" where
  \<comment> \<open>\<open>unit_price DECIMAL(10, 2)\<close>, \<open>tax_rate DECIMAL(5, 2)\<close>, \<open>line_total DECIMAL(12, 2)\<close>\<close>
  "coerce_order_item i =
     (case sql_decimal 10 (oi_unit_price i) of
        None \<Rightarrow> None
      | Some u \<Rightarrow>
     (case sql_decimal 5 (oi_tax_rate i) of
        None \<Rightarrow> None
      | Some t \<Rightarrow>
     (case sql_decimal 12 (oi_line_total i) of
        None \<Rightarrow> None
      | Some l \<Rightarrow> Some (i\<lparr>oi_unit_price := u, oi_tax_rate := t, oi_line_total := l\<rparr>))))"

definition order_item_ok :: "db \<Rightarrow> order_item \<Rightarrow> bool" where
  \<comment> \<open>the foreign keys and \<open>CHECK\<close> constraints of \<open>order_items\<close>\<close>
  "order_item_ok d i =
     (oi_order_id i \<in> set (map o_id (orders d)) \<and>
      oi_product_id i \<in> set (map p_id (products d)) \<and>
      0 < oi_quantity i \<and> 0 \<le> oi_unit_price i \<and> 0 \<le> oi_line_total i)"

definition insert_order_items :: "env \<Rightarrow> db \<Rightarrow> order_item list \<Rightarrow> string + db" where
  \<comment> \<open>one \<open>INSERT\<close> statement for all the rows: all are stored or none is\<close>
  "insert_order_items e d rows =
     (case fault e InsertOrderItems of
        Some msg \<Rightarrow> Inl msg
      | None \<Rightarrow>
          (case those (map coerce_order_item rows) of
             None \<Rightarrow> Inl ''numeric field overflow''
           | Some rs \<Rightarrow>
               if list_all (order_item_ok d) rs
               then Inr (d\<lparr>order_items := order_items d @ rs\<rparr>)
               else Inl ''new row for relation order_items violates a constraint''))"

definition select_quantity_on_hand :: "env \<Rightarrow> db \<Rightarrow> string \<Rightarrow> string + int" where
  \<comment> \<open>\<open>from('products').select('quantity_on_hand').eq('id', pid).single()\<close>\<close>
  "select_quantity_on_hand e d pid =
     (case fault e (SelectProduct pid) of
        Some msg \<Rightarrow> Inl msg
      | None \<Rightarrow>
          (case filter (\<lambda>p. p_id p = pid) (products d) of
             [p] \<Rightarrow> Inr (quantity_on_hand p)
           | _ \<Rightarrow> Inl no_rows))"

definition update_order_status :: "db \<Rightarrow> string \<Rightarrow> order_status \<Rightarrow> db" where
  \<comment> \<open>\<open>UPDATE orders SET status = st WHERE id = oid\<close>\<close>
  "update_order_status d oid st =
     d\<lparr>orders := map (\<lambda>r. if o_id r = oid then r\<lparr>status := st\<rparr> else r) (orders d)\<rparr>"

definition soft_delete_order :: "env \<Rightarrow> db \<Rightarrow> string \<Rightarrow> db" where
  \<comment> \<open>the awaited update whose result \<open>createOrder\<close> does not look at\<close>
  "soft_delete_order e d oid =
     (case fault e SoftDeleteOrder of
        Some _ \<Rightarrow> d
      | None \<Rightarrow> update_order_status d oid Cancelled)"

definition update_order_status_single ::
  "env \<Rightarrow> db \<Rightarrow> string \<Rightarrow> order_status \<Rightarrow> string + (db \<times> order_row)" where
  \<comment> \<open>\<open>from('orders').update({status}).eq('id', oid).select().single()\<close>\<close>
  "update_order_status_single e d oid st =
     (case fault e UpdateOrderStatus of
        Some msg \<Rightarrow> Inl msg
      | None \<Rightarrow>
          (let d1 = update_order_status d oid st
           in case filter (\<lambda>r. o_id r = oid) (orders d1) of
                [r] \<Rightarrow> Inr (d1, r)
              | _ \<Rightarrow> Inl no_rows))"

definition select_order_items :: "env \<Rightarrow> db \<Rightarrow> string \<Rightarrow> string + order_item list" where
  "select_order_items e d orderId =
     (case fault e SelectOrderItems of
        Some msg \<Rightarrow> Inl msg
      | None \<Rightarrow> Inr (filter (\<lambda>i. oi_order_id i = orderId) (order_items d)))"

definition rpc_increment :: "env \<Rightarrow> db \<Rightarrow> string \<Rightarrow> int \<Rightarrow> string + db" where
  \<comment> \<open>Modelled from the spec: the stored procedure \<open>increment\<close> that \<open>cancelOrder\<close> calls
      is not defined in database_schema.sql. By the call site (\<open>row_id\<close>, \<open>amount\<close>,
      "Update product quantity (add back)") and the spec's ledger application it adds
      \<open>amount\<close> to the product's quantity_on_hand; a database without the procedure is the
      environment in which the call fails.\<close>
  "rpc_increment e d row_id amount =
     (case fault e (RpcIncrement row_id) of
        Some msg \<Rightarrow> Inl msg
      | None \<Rightarrow> update_products_quantity d row_id amount)"

definition insert_inventory_log :: "env \<Rightarrow> db \<Rightarrow> inventory_log \<Rightarrow> string + db" where
  "insert_inventory_log e d row =
     (case fault e (InsertInventoryLog (il_product_id row)) of
        Some msg \<Rightarrow> Inl msg
      | None \<Rightarrow> Inr (d\<lparr>inventory_logs := inventory_logs d @ [row]\<rparr>))"

section \<open>Checkout: \<open>createOrder\<close> (lib/actions/orders.ts)\<close>

text \<open>
  The validation loop: the first line whose lookup fails or whose stock is short ends the
  action with that line's error; \<open>None\<close> means every line passed.
\<close>

fun validate_items :: "env \<Rightarrow> db \<Rightarrow> cart_item list \<Rightarrow> string option" where
  "validate_items e d [] = None"
| "validate_items e d (cartItem # rest) =
     (case select_quantity_on_hand e d (ci_product_id cartItem) of
        Inl _ \<Rightarrow> Some (''Product not found: '' @ ci_product_id cartItem)
      | Inr q \<Rightarrow>
          if q < ci_quantity cartItem
          then Some (''Insufficient stock for product: '' @ p_name (ci_product cartItem))
          else validate_items e d rest)"

definition priced :: "cart_item \<Rightarrow> priced_item" where
  "priced item = \<lparr>pi_quantity = ci_quantity item, pi_unit_price = price (ci_product item),
                  pi_tax_rate = tax_rate (ci_product item)\<rparr>"

definition line_item :: "string \<Rightarrow> cart_item \<Rightarrow> order_item" where
  "line_item orderId item =
     \<lparr>oi_order_id = orderId, oi_product_id = ci_product_id item,
      oi_quantity = ci_quantity item, oi_unit_price = price (ci_product item),
      oi_tax_rate = tax_rate (ci_product item),
      oi_line_total = total (calculateCartTotals [priced item])\<rparr>"

definition createOrder ::
  "env \<Rightarrow> db \<Rightarrow> string \<Rightarrow> cart_item list \<Rightarrow> payment_method \<Rightarrow> string option
     \<Rightarrow> db \<times> order_row api_response" where
  "createOrder e d cashierId items paymentMethod nts =
     (if items = [] then (d, failure ''Cart is empty'')
      else
        (case client_error e of
           Some msg \<Rightarrow> (d, failure (or_default msg ''An unexpected error occurred''))
         | None \<Rightarrow>
        (case validate_items e d items of
           Some err \<Rightarrow> (d, failure err)
         | None \<Rightarrow>
             (let totals = calculateCartTotals (map priced items);
                  orderNumber = new_order_number e
              in case insert_order e d cashierId orderNumber Completed (subtotal totals)
                        (tax totals) (total totals) paymentMethod nts of
                   Inl msg \<Rightarrow> (d, failure (or_default msg ''Failed to create order''))
                 | Inr (d1, order) \<Rightarrow>
                     (case insert_order_items e d1 (map (line_item (o_id order)) items) of
                        Inl _ \<Rightarrow>
                          (soft_delete_order e d1 (o_id order),
                           failure ''Failed to create order items'')
                      | Inr d2 \<Rightarrow>
                          (d2, succeeded order
                                 (''Order '' @ orderNumber @ '' created successfully'')))))))"

section \<open>Cancellation: \<open>cancelOrder\<close> (lib/actions/orders.ts)\<close>

definition return_log :: "string \<Rightarrow> string \<Rightarrow> order_item \<Rightarrow> inventory_log" where
  "return_log orderId userId item =
     \<lparr>il_product_id = oi_product_id item, il_transaction_type = Return,
      il_quantity_change = oi_quantity item, il_reference_id = Some orderId,
      il_reference_type = Some ''order'',
      il_notes = Some (''Order '' @ orderId @ '' cancelled - inventory restored''),
      il_created_by = userId\<rparr>"

text \<open>
  The restore loop: both requests of an iteration are awaited and their results dropped,
  so a failed request leaves the store as it was and the loop goes on.
\<close>

fun restore_inventory :: "env \<Rightarrow> string \<Rightarrow> string \<Rightarrow> order_item list \<Rightarrow> db \<Rightarrow> db" where
  "restore_inventory e orderId userId [] d = d"
| "restore_inventory e orderId userId (item # rest) d =
     (let d1 = (case rpc_increment e d (oi_product_id item) (oi_quantity item) of
                  Inl _ \<Rightarrow> d | Inr d' \<Rightarrow> d');
          d2 = (case insert_inventory_log e d1 (return_log orderId userId item) of
                  Inl _ \<Rightarrow> d1 | Inr d' \<Rightarrow> d')
      in restore_inventory e orderId userId rest d2)"

definition cancelOrder :: "env \<Rightarrow> db \<Rightarrow> string \<Rightarrow> string \<Rightarrow> db \<times> order_row api_response" where
  "cancelOrder e d orderId userId =
     (case client_error e of
        Some msg \<Rightarrow> (d, failure (or_default msg ''An unexpected error occurred''))
      | None \<Rightarrow>
     (case select_order_items e d orderId of
        Inl _ \<Rightarrow> (d, failure ''Failed to fetch order items'')
      | Inr orderItems \<Rightarrow>
          (let d1 = restore_inventory e orderId userId orderItems d
           in case update_order_status_single e d1 orderId Cancelled of
                Inl msg \<Rightarrow> (d1, failure msg)
              | Inr (d2, order) \<Rightarrow>
                  (d2, succeeded order ''Order cancelled and inventory restored''))))"

section \<open>Stock update: \<open>updateStock\<close> (lib/actions/products.ts)\<close>

text \<open>
  The update request of \<open>updateStock\<close> assigns to \<open>quantity_on_hand\<close> the nested query
  \<open>from('products').select('quantity_on_hand').eq('id', productId)\<close>; \<open>quantityChange\<close>
  is not part of the request. The nested query is read here as what it selects, the
  product's current quantity; a persistence layer that rejects the value is the
  environment in which the request fails.
\<close>

definition update_product_quantity_on_hand ::
  "env \<Rightarrow> db \<Rightarrow> string \<Rightarrow> string + (db \<times> product)" where
  "update_product_quantity_on_hand e d productId =
     (case fault e (UpdateProduct productId) of
        Some msg \<Rightarrow> Inl msg
      | None \<Rightarrow>
          (case filter (\<lambda>p. p_id p = productId) (products d) of
             [p] \<Rightarrow>
               Inr (d\<lparr>products :=
                       map (\<lambda>r. if p_id r = productId
                                 then r\<lparr>quantity_on_hand := quantity_on_hand p\<rparr> else r)
                         (products d)\<rparr>, p)
           | _ \<Rightarrow> Inl no_rows))"

definition updateStock ::
  "env \<Rightarrow> db \<Rightarrow> string \<Rightarrow> int \<Rightarrow> transaction_type \<Rightarrow> string \<Rightarrow> string option
     \<Rightarrow> db \<times> (product \<times> inventory_log) api_response" where
  "updateStock e d productId quantityChange transactionType userId nts =
     (case client_error e of
        Some msg \<Rightarrow> (d, failure (or_default msg ''An unexpected error occurred''))
      | None \<Rightarrow>
     (case update_product_quantity_on_hand e d productId of
        Inl msg \<Rightarrow> (d, failure msg)
      | Inr (d1, product) \<Rightarrow>
          (let log = \<lparr>il_product_id = productId, il_transaction_type = transactionType,
                      il_quantity_change = quantityChange, il_reference_id = None,
                      il_reference_type = None, il_notes = nts, il_created_by = userId\<rparr>
           in case insert_inventory_log e d1 log of
                Inl msg \<Rightarrow> (d1, failure msg)
              | Inr d2 \<Rightarrow> (d2, succeeded (product, log) ''Stock updated successfully''))))"

section \<open>Specification-side notions\<close>

text \<open>
  The foreign key of \<open>order_items.order_id\<close>: every order item references an order of the
  store.
\<close>

definition order_items_fk :: "db \<Rightarrow> bool" where
  "order_items_fk d = list_all (\<lambda>i. oi_order_id i \<in> set (map o_id (orders d))) (order_items d)"

text \<open>
  The order total as the specification words it: every line's
  \<open>price * quantity * (1 + tax_rate / 100)\<close> rounded to two decimals, the sum rounded again.
\<close>

definition spec_line_total :: "cart_item \<Rightarrow> rat" where
  "spec_line_total item =
     formatDecimal (price (ci_product item) * of_int (ci_quantity item)
                      * (1 + tax_rate (ci_product item) / 100)) 2"

definition spec_order_total :: "cart_item list \<Rightarrow> rat" where
  "spec_order_total items = formatDecimal (sum_list (map spec_line_total items)) 2"

definition line_subtotal :: "cart_item \<Rightarrow> rat" where
  "line_subtotal item = of_int (ci_quantity item) * price (ci_product item)"

definition line_tax :: "cart_item \<Rightarrow> rat" where
  "line_tax item = formatDecimal (line_subtotal item * (tax_rate (ci_product item) / 100)) 2"

text \<open>The signed sum of the ledger entries that reference an order, and a product's stock.\<close>

definition order_ledger_sum :: "db \<Rightarrow> string \<Rightarrow> int" where
  "order_ledger_sum d orderId =
     sum_list (map il_quantity_change
                 (filter (\<lambda>l. il_reference_id l = Some orderId) (inventory_logs d)))"

definition stock_of :: "db \<Rightarrow> string \<Rightarrow> int list" where
  "stock_of d pid = map quantity_on_hand (filter (\<lambda>p. p_id p = pid) (products d))"

section \<open>An example store\<close>

definition coffee :: product where
  "coffee = \<lparr>p_id = ''p1'', p_name = ''Coffee'', price = 1299 / 100, tax_rate = 10,
             quantity_on_hand = 10\<rparr>"

definition tea :: product where
  "tea = \<lparr>p_id = ''p2'', p_name = ''Tea'', price = 350 / 100, tax_rate = 0,
          quantity_on_hand = 5\<rparr>"

definition shop :: db where
  "shop = \<lparr>products = [coffee, tea], orders = [], order_items = [], inventory_logs = []\<rparr>"

definition calm :: "string \<Rightarrow> string \<Rightarrow> env" where
  \<comment> \<open>an environment in which no request fails\<close>
  "calm oid num =
     \<lparr>client_error = None, fault = (\<lambda>_. None), new_order_id = oid, new_order_number = num\<rparr>"

definition failing :: "call list \<Rightarrow> string \<Rightarrow> string \<Rightarrow> env" where
  \<comment> \<open>an environment in which exactly the listed requests fail\<close>
  "failing cs oid num =
     \<lparr>client_error = None,
      fault = (\<lambda>c. if c \<in> set cs then Some ''connection lost'' else None),
      new_order_id = oid, new_order_number = num\<rparr>"

definition two_coffees :: "cart_item list" where
  "two_coffees = [\<lparr>ci_product_id = ''p1'', ci_quantity = 2, ci_product = coffee\<rparr>]"

definition five_teas :: "cart_item list" where
  "five_teas = [\<lparr>ci_product_id = ''p2'', ci_quantity = 5, ci_product = tea\<rparr>]"

definition ghost :: cart_item where
  "ghost = \<lparr>ci_product_id = ''p9'', ci_quantity = 1, ci_product = coffee\<lparr>p_id := ''p9''\<rparr>\<rparr>"

definition six_teas :: cart_item where
  "six_teas = \<lparr>ci_product_id = ''p2'', ci_quantity = 6, ci_product = tea\<rparr>"

definition after_sale :: db where
  \<comment> \<open>the store after a checkout of two coffees\<close>
  "after_sale = fst (createOrder (calm ''o1'' ''ORD-1'') shop ''u1'' two_coffees Cash None)"

definition after_cancel :: db where
  \<comment> \<open>the store after that order was cancelled once\<close>
  "after_cancel = fst (cancelOrder (calm ''o2'' ''ORD-2'') after_sale ''o1'' ''admin'')"

definition crumbs :: "cart_item list" where
  \<comment> \<open>three lines whose client-side product carries a price of 0.003 and a tax rate of 100\<close>
  "crumbs = replicate 3 \<lparr>ci_product_id = ''p1'', ci_quantity = 1,
                          ci_product = coffee\<lparr>price := 3 / 1000, tax_rate := 100\<rparr>\<rparr>"

definition discounted :: "cart_item list" where
  \<comment> \<open>two coffees whose client-side product carries a price of 1.00 and no tax\<close>
  "discounted = [\<lparr>ci_product_id = ''p1'', ci_quantity = 2,
                  ci_product = coffee\<lparr>price := 1, tax_rate := 0\<rparr>\<rparr>]"

section \<open>Rounding lemmas\<close>

lemma is_centsE:
  assumes "is_cents x"
  obtains k :: int where "x = of_int k / 100"
proof -
  from assms have "x * 100 = of_int \<lfloor>x * 100\<rfloor>"
    unfolding is_cents_def by (rule sym)
  then have "x = of_int \<lfloor>x * 100\<rfloor> / 100"
    by (simp add: eq_divide_eq)
  then show thesis by (rule that)
qed

lemma is_cents_of_int_div [simp]: "is_cents (of_int k / 100)"
  by (simp add: is_cents_def)

lemma Math_round_of_int [simp]: "Math_round (of_int k) = k"
  unfolding Math_round_def by (rule floor_unique) simp_all

lemma Math_round_add_of_int: "Math_round (of_int k + y) = k + Math_round y"
proof -
  have "Math_round (of_int k + y) = \<lfloor>(y + 1 / 2) + of_int k\<rfloor>"
    by (simp add: Math_round_def algebra_simps)
  also have "\<dots> = \<lfloor>y + 1 / 2\<rfloor> + k"
    by (simp only: floor_add_int)
  finally show ?thesis by (simp add: Math_round_def)
qed

lemma formatDecimal_is_cents [simp]: "is_cents (formatDecimal y 2)"
  by (simp add: formatDecimal_def)

lemma formatDecimal_cents: "is_cents x \<Longrightarrow> formatDecimal x 2 = x"
  by (erule is_centsE) (simp add: formatDecimal_def)

lemma formatDecimal_add_cents:
  assumes "is_cents x"
  shows "formatDecimal (x + y) 2 = x + formatDecimal y 2"
proof -
  from assms obtain k :: int where x: "x = of_int k / 100" by (rule is_centsE)
  have "(x + y) * 10 ^ 2 = of_int k + y * 100"
    by (simp add: x algebra_simps)
  then have "Math_round ((x + y) * 10 ^ 2) = k + Math_round (y * 100)"
    by (simp only: Math_round_add_of_int)
  then show ?thesis
    by (simp add: formatDecimal_def x add_divide_distrib)
qed

lemma is_cents_add: "is_cents x \<Longrightarrow> is_cents y \<Longrightarrow> is_cents (x + y)"
proof -
  assume "is_cents x" "is_cents y"
  then obtain k l :: int where "x = of_int k / 100" "y = of_int l / 100"
    by (elim is_centsE)
  then have "x + y = of_int (k + l) / 100" by (simp add: add_divide_distrib)
  then show ?thesis by (simp only: is_cents_of_int_div)
qed

lemma is_cents_mult_int: "is_cents x \<Longrightarrow> is_cents (of_int q * x)"
proof -
  assume "is_cents x"
  then obtain k :: int where "x = of_int k / 100" by (rule is_centsE)
  then have "of_int q * x = of_int (q * k) / 100" by simp
  then show ?thesis by (simp only: is_cents_of_int_div)
qed

lemma is_cents_0 [simp]: "is_cents 0"
  by (simp add: is_cents_def)

lemma sql_round_cents: "is_cents x \<Longrightarrow> sql_round x = x"
proof (erule is_centsE)
  fix k :: int
  assume x: "x = of_int k / 100"
  have "\<bar>x\<bar> * 100 = of_int \<bar>k\<bar>" by (simp add: x)
  then have "\<lfloor>\<bar>x\<bar> * 100 + 1 / 2\<rfloor> = \<bar>k\<bar>"
    using Math_round_of_int [of "\<bar>k\<bar>"] by (simp add: Math_round_def)
  then have "sql_round x = sgn x * (of_int \<bar>k\<bar> / 100)"
    by (simp add: sql_round_def)
  also have "of_int \<bar>k\<bar> / 100 = \<bar>x\<bar>" by (simp add: x)
  also have "sgn x * \<bar>x\<bar> = x" by (rule sgn_mult_abs)
  finally show ?thesis .
qed

lemma sql_decimal_cents: "sql_decimal p x = Some s \<Longrightarrow> is_cents x \<Longrightarrow> s = x"
  by (auto simp: sql_decimal_def Let_def sql_round_cents split: if_splits)

lemma sql_decimal_Some: "sql_decimal p x = Some s \<Longrightarrow> s = sql_round x"
  by (auto simp: sql_decimal_def Let_def split: if_splits)

section \<open>Line totals\<close>




section \<open>Validation\<close>

lemma validate_items_append:
  "validate_items e d pre = None \<Longrightarrow> validate_items e d (pre @ rest) = validate_items e d rest"
  by (induction pre) (auto split: sum.splits if_splits)

lemma validate_items_bad:
  "\<exists>c \<in> set items. (\<exists>msg. select_quantity_on_hand e d (ci_product_id c) = Inl msg)
       \<or> (\<exists>q. select_quantity_on_hand e d (ci_product_id c) = Inr q \<and> q < ci_quantity c)
   \<Longrightarrow> validate_items e d items \<noteq> None"
  by (induction items) (auto split: sum.splits if_splits)

lemma createOrder_invalid:
  "validate_items e d items = Some err \<Longrightarrow>
   fst (createOrder e d cashierId items pm nts) = d \<and>
   \<not> success (snd (createOrder e d cashierId items pm nts))"
  by (simp add: createOrder_def failure_def split: option.splits)

text \<open>
  C7. Checkout rejects without touching the store: an empty cart at once with
  "Cart is empty", whatever the environment and the store; and when the lines before \<open>c\<close>
  pass validation, with "Product not found: <id of c>" if the lookup of \<open>c\<close> fails and with
  "Insufficient stock for product: ..." if the product's quantity_on_hand is strictly less
  than the requested quantity. Whenever some line has a failing lookup or short stock the
  action fails and the store is the one it started from.
\<close>

theorem checkout_rejects_before_mutation:
  "createOrder e d cashierId [] pm nts = (d, failure ''Cart is empty'') \<and>
   (client_error e = None \<and> validate_items e d pre = None \<longrightarrow>
      (\<forall>msg. select_quantity_on_hand e d (ci_product_id c) = Inl msg \<longrightarrow>
         createOrder e d cashierId (pre @ c # post) pm nts
           = (d, failure (''Product not found: '' @ ci_product_id c))) \<and>
      (\<forall>q. select_quantity_on_hand e d (ci_product_id c) = Inr q \<and> q < ci_quantity c \<longrightarrow>
         createOrder e d cashierId (pre @ c # post) pm nts
           = (d, failure (''Insufficient stock for product: '' @ p_name (ci_product c))))) \<and>
   ((\<exists>c \<in> set items. (\<exists>msg. select_quantity_on_hand e d (ci_product_id c) = Inl msg)
        \<or> (\<exists>q. select_quantity_on_hand e d (ci_product_id c) = Inr q \<and> q < ci_quantity c)) \<longrightarrow>
      fst (createOrder e d cashierId items pm nts) = d \<and>
      \<not> success (snd (createOrder e d cashierId items pm nts)))"
proof (intro conjI impI allI)
  show "createOrder e d cashierId [] pm nts = (d, failure ''Cart is empty'')"
    by (simp add: createOrder_def)
next
  fix msg
  assume h: "client_error e = None \<and> validate_items e d pre = None"
    and l: "select_quantity_on_hand e d (ci_product_id c) = Inl msg"
  from h l have "validate_items e d (pre @ c # post) = Some (''Product not found: '' @ ci_product_id c)"
    by (simp add: validate_items_append)
  with h show "createOrder e d cashierId (pre @ c # post) pm nts
           = (d, failure (''Product not found: '' @ ci_product_id c))"
    by (simp add: createOrder_def)
next
  fix q
  assume h: "client_error e = None \<and> validate_items e d pre = None"
    and l: "select_quantity_on_hand e d (ci_product_id c) = Inr q \<and> q < ci_quantity c"
  from h l have "validate_items e d (pre @ c # post)
      = Some (''Insufficient stock for product: '' @ p_name (ci_product c))"
    by (simp add: validate_items_append)
  with h show "createOrder e d cashierId (pre @ c # post) pm nts
           = (d, failure (''Insufficient stock for product: '' @ p_name (ci_product c)))"
    by (simp add: createOrder_def)
next
  assume b: "\<exists>c \<in> set items. (\<exists>msg. select_quantity_on_hand e d (ci_product_id c) = Inl msg)
        \<or> (\<exists>q. select_quantity_on_hand e d (ci_product_id c) = Inr q \<and> q < ci_quantity c)"
  then have "validate_items e d items \<noteq> None" by (rule validate_items_bad)
  then obtain err where "validate_items e d items = Some err" by blast
  then show "fst (createOrder e d cashierId items pm nts) = d"
    and "\<not> success (snd (createOrder e d cashierId items pm nts))"
    by (simp_all add: createOrder_invalid)
qed

theorem checkout_rejects_before_mutation_witness:
  "createOrder (calm ''o1'' ''ORD-1'') shop ''u1'' (two_coffees @ ghost # five_teas) Cash None
     = (shop, failure ''Product not found: p9'') \<and>
   createOrder (calm ''o1'' ''ORD-1'') shop ''u1'' (two_coffees @ six_teas # five_teas) Cash None
     = (shop, failure ''Insufficient stock for product: Tea'') \<and>
   fst (createOrder (calm ''o1'' ''ORD-1'') shop ''u1'' [six_teas] Cash None) = shop"
proof -
  let ?e = "calm ''o1'' ''ORD-1''"
  have c: "client_error ?e = None \<and> validate_items ?e shop two_coffees = None"
    by (simp add: calm_def shop_def two_coffees_def coffee_def tea_def
        select_quantity_on_hand_def)
  have g: "select_quantity_on_hand ?e shop (ci_product_id ghost) = Inl no_rows"
    by (simp add: calm_def shop_def ghost_def coffee_def tea_def select_quantity_on_hand_def)
  have s: "select_quantity_on_hand ?e shop (ci_product_id six_teas) = Inr 5 \<and>
           5 < ci_quantity six_teas"
    by (simp add: calm_def shop_def six_teas_def coffee_def tea_def select_quantity_on_hand_def)
  have m: "\<exists>c \<in> set [six_teas].
      (\<exists>msg. select_quantity_on_hand ?e shop (ci_product_id c) = Inl msg) \<or>
      (\<exists>q. select_quantity_on_hand ?e shop (ci_product_id c) = Inr q \<and> q < ci_quantity c)"
    using s by auto
  note t = checkout_rejects_before_mutation
  from t [of ?e shop "''u1''" Cash None two_coffees ghost five_teas] c g
  have 1: "createOrder ?e shop ''u1'' (two_coffees @ ghost # five_teas) Cash None
     = (shop, failure ''Product not found: p9'')"
    by (simp add: ghost_def)
  from t [of ?e shop "''u1''" Cash None two_coffees six_teas five_teas] c s
  have 2: "createOrder ?e shop ''u1'' (two_coffees @ six_teas # five_teas) Cash None
     = (shop, failure ''Insufficient stock for product: Tea'')"
    by (simp add: six_teas_def tea_def)
  from t [of ?e shop "''u1''" Cash None _ _ _ "[six_teas]"] m
  have 3: "fst (createOrder ?e shop ''u1'' [six_teas] Cash None) = shop"
    by blast
  from 1 2 3 show ?thesis by simp
qed

section \<open>What the inserts store\<close>

lemma update_products_quantity_keeps:
  "update_products_quantity d pid k = Inr d' \<Longrightarrow>
   orders d' = orders d \<and> order_items d' = order_items d \<and> inventory_logs d' = inventory_logs d"
  by (auto simp: update_products_quantity_def Let_def split: if_splits)

lemma update_inventory_loop_keeps:
  "update_inventory_loop new xs d = Inr d' \<Longrightarrow>
   orders d' = orders d \<and> order_items d' = order_items d"
proof (induction new xs d rule: update_inventory_loop.induct)
  case (1 new d)
  then show ?case by simp
next
  case (2 new v_product_id v_quantity rest d)
  then show ?case
    by (auto split: sum.splits dest!: update_products_quantity_keeps)
qed

lemma insert_order_Inr:
  assumes "insert_order e d c n st s t tt pm nts = Inr (d1, row)"
  shows "orders d1 = orders d @ [row]" and "order_items d1 = order_items d"
    and "o_id row = new_order_id e" and "new_order_id e \<notin> set (map o_id (orders d))"
    and "status row = st"
    and "sql_decimal 12 s = Some (o_subtotal row)"
    and "sql_decimal 12 t = Some (o_tax_total row)"
    and "sql_decimal 12 tt = Some (o_total row)"
  using assms
  by (auto simp: insert_order_def Let_def update_inventory_on_order_def
      split: option.splits if_splits sum.splits dest!: update_inventory_loop_keeps)

lemma fk_no_items:
  "order_items_fk d \<Longrightarrow> oid \<notin> set (map o_id (orders d)) \<Longrightarrow>
   filter (\<lambda>i. oi_order_id i = oid) (order_items d) = []"
  by (auto simp: order_items_fk_def list_all_iff filter_empty_conv)

lemma insert_order_fk:
  assumes "order_items_fk d" and "insert_order e d c n st s t tt pm nts = Inr (d1, row)"
  shows "d1 = d\<lparr>orders := orders d @ [row]\<rparr>"
  using assms(2) fk_no_items [OF assms(1), of "new_order_id e"]
  by (auto simp: insert_order_def Let_def update_inventory_on_order_def
      split: option.splits if_splits sum.splits)

lemma those_map_Some:
  "those (map f xs) = Some ys \<Longrightarrow> ys = map (\<lambda>x. the (f x)) xs \<and> list_all (\<lambda>x. f x \<noteq> None) xs"
  by (induction xs arbitrary: ys) (auto split: option.splits)

lemma coerce_order_item_Some:
  "coerce_order_item i = Some r \<Longrightarrow>
   r = i\<lparr>oi_unit_price := sql_round (oi_unit_price i), oi_tax_rate := sql_round (oi_tax_rate i),
         oi_line_total := sql_round (oi_line_total i)\<rparr>"
  by (auto simp: coerce_order_item_def split: option.splits dest!: sql_decimal_Some)

lemma insert_order_items_Inr:
  assumes "insert_order_items e d rows = Inr d2"
  shows "d2 = d\<lparr>order_items := order_items d @
                  map (\<lambda>i. i\<lparr>oi_unit_price := sql_round (oi_unit_price i),
                             oi_tax_rate := sql_round (oi_tax_rate i),
                             oi_line_total := sql_round (oi_line_total i)\<rparr>) rows\<rparr>"
proof -
  from assms obtain rs where rs: "those (map coerce_order_item rows) = Some rs"
    and d2: "d2 = d\<lparr>order_items := order_items d @ rs\<rparr>"
    by (auto simp: insert_order_items_def split: option.splits if_splits)
  from rs have m: "rs = map (\<lambda>x. the (coerce_order_item x)) rows"
    and a: "list_all (\<lambda>x. coerce_order_item x \<noteq> None) rows"
    by (auto dest: those_map_Some)
  have "map (\<lambda>x. the (coerce_order_item x)) rows =
        map (\<lambda>i. i\<lparr>oi_unit_price := sql_round (oi_unit_price i),
                   oi_tax_rate := sql_round (oi_tax_rate i),
                   oi_line_total := sql_round (oi_line_total i)\<rparr>) rows"
  proof (rule map_cong [OF refl])
    fix x assume "x \<in> set rows"
    with a obtain r where r: "coerce_order_item x = Some r"
      by (auto simp: list_all_iff)
    then show "the (coerce_order_item x) =
          x\<lparr>oi_unit_price := sql_round (oi_unit_price x),
            oi_tax_rate := sql_round (oi_tax_rate x),
            oi_line_total := sql_round (oi_line_total x)\<rparr>"
      using coerce_order_item_Some [OF r] by simp
  qed
  with m d2 show ?thesis by simp
qed

lemma createOrder_successE:
  assumes "createOrder e d cashierId items pm nts = (d', r)" and "success r"
  obtains d1 order where
    "items \<noteq> []"
    "insert_order e d cashierId (new_order_number e) Completed
       (subtotal (calculateCartTotals (map priced items)))
       (tax (calculateCartTotals (map priced items)))
       (total (calculateCartTotals (map priced items))) pm nts = Inr (d1, order)"
    "insert_order_items e d1 (map (line_item (o_id order)) items) = Inr d'"
    "r = succeeded order (''Order '' @ new_order_number e @ '' created successfully'')"
  using assms
  by (auto simp: createOrder_def failure_def Let_def
      split: if_splits option.splits sum.splits prod.splits)

lemma is_cents_totals:
  "is_cents (subtotal (calculateCartTotals xs))"
  "is_cents (tax (calculateCartTotals xs))"
  "is_cents (total (calculateCartTotals xs))"
  by (simp_all add: calculateCartTotals_def Let_def)

lemma created_order_totals:
  assumes "createOrder e d cashierId items pm nts = (d', r)" and "success r"
  obtains order where "data r = Some order" "order \<in> set (orders d')" "items \<noteq> []"
    "o_subtotal order = subtotal (calculateCartTotals (map priced items))"
    "o_tax_total order = tax (calculateCartTotals (map priced items))"
    "o_total order = total (calculateCartTotals (map priced items))"
    "order_items d' = order_items d @
       map (\<lambda>i. i\<lparr>oi_unit_price := sql_round (oi_unit_price i),
                  oi_tax_rate := sql_round (oi_tax_rate i),
                  oi_line_total := sql_round (oi_line_total i)\<rparr>)
         (map (line_item (o_id order)) items)"
proof -
  from assms obtain d1 order where ne: "items \<noteq> []"
    and io: "insert_order e d cashierId (new_order_number e) Completed
       (subtotal (calculateCartTotals (map priced items)))
       (tax (calculateCartTotals (map priced items)))
       (total (calculateCartTotals (map priced items))) pm nts = Inr (d1, order)"
    and ii: "insert_order_items e d1 (map (line_item (o_id order)) items) = Inr d'"
    and r: "r = succeeded order (''Order '' @ new_order_number e @ '' created successfully'')"
    by (rule createOrder_successE)
  note o = insert_order_Inr [OF io]
  note i = insert_order_items_Inr [OF ii]
  have 1: "data r = Some order" by (simp add: r succeeded_def)
  have 2: "order \<in> set (orders d')" by (subst i) (simp add: o(1))
  have 3: "o_subtotal order = subtotal (calculateCartTotals (map priced items))"
    using o(6) is_cents_totals(1) by (rule sql_decimal_cents)
  have 4: "o_tax_total order = tax (calculateCartTotals (map priced items))"
    using o(7) is_cents_totals(2) by (rule sql_decimal_cents)
  have 5: "o_total order = total (calculateCartTotals (map priced items))"
    using o(8) is_cents_totals(3) by (rule sql_decimal_cents)
  have 6: "order_items d' = order_items d @
       map (\<lambda>i. i\<lparr>oi_unit_price := sql_round (oi_unit_price i),
                  oi_tax_rate := sql_round (oi_tax_rate i),
                  oi_line_total := sql_round (oi_line_total i)\<rparr>)
         (map (line_item (o_id order)) items)"
    by (subst i) (simp add: o(2))
  from 1 2 ne 3 4 5 6 show thesis by (rule that)
qed

lemma createOrder_keeps_inventory:
  assumes "order_items_fk d"
  shows "products (fst (createOrder e d cashierId items pm nts)) = products d \<and>
     inventory_logs (fst (createOrder e d cashierId items pm nts)) = inventory_logs d"
proof -
  have "products d' = products d \<and> inventory_logs d' = inventory_logs d"
    if "createOrder e d cashierId items pm nts = (d', r)" for d' r
    using that
    by (auto simp: createOrder_def Let_def soft_delete_order_def update_order_status_def
        split: if_splits option.splits sum.splits prod.splits
        dest!: insert_order_fk [OF assms] insert_order_items_Inr)
  from this [of "fst (createOrder e d cashierId items pm nts)"
      "snd (createOrder e d cashierId items pm nts)"]
  show ?thesis by simp
qed

section \<open>Totals of an order\<close>

lemma fold_cart_step:
  "fold cart_step xs (a, b) =
     (a + sum_list (map (\<lambda>i. of_int (pi_quantity i) * pi_unit_price i) xs),
      b + sum_list (map (\<lambda>i. calculateTax (of_int (pi_quantity i) * pi_unit_price i)
                                (pi_tax_rate i)) xs))"
  by (induction xs arbitrary: a b) (simp_all add: cart_step_def Let_def add.assoc)

lemma calculateCartTotals_sums:
  "subtotal (calculateCartTotals (map priced items))
     = formatDecimal (sum_list (map line_subtotal items)) 2"
  "tax (calculateCartTotals (map priced items))
     = formatDecimal (sum_list (map line_tax items)) 2"
  "total (calculateCartTotals (map priced items))
     = formatDecimal (sum_list (map line_subtotal items) + sum_list (map line_tax items)) 2"
  by (simp_all add: calculateCartTotals_def fold_cart_step Let_def priced_def
      line_subtotal_def [abs_def] line_tax_def [abs_def] calculateTax_def comp_def)

lemma is_cents_line_subtotal: "is_cents (price (ci_product i)) \<Longrightarrow> is_cents (line_subtotal i)"
  unfolding line_subtotal_def by (rule is_cents_mult_int)

lemma spec_line_total_cents:
  assumes "is_cents (price (ci_product i))"
  shows "spec_line_total i = line_subtotal i + line_tax i"
proof -
  have "price (ci_product i) * of_int (ci_quantity i) * (1 + tax_rate (ci_product i) / 100)
        = line_subtotal i + line_subtotal i * (tax_rate (ci_product i) / 100)"
    by (simp add: line_subtotal_def algebra_simps)
  then show ?thesis
    unfolding spec_line_total_def line_tax_def
    by (simp only: formatDecimal_add_cents [OF is_cents_line_subtotal [OF assms]])
qed

lemma spec_order_total_cents:
  assumes "list_all (\<lambda>i. is_cents (price (ci_product i))) items"
  shows "spec_order_total items
     = formatDecimal (sum_list (map line_subtotal items) + sum_list (map line_tax items)) 2"
proof -
  have "map spec_line_total items = map (\<lambda>i. line_subtotal i + line_tax i) items"
    using assms by (auto simp: list_all_iff spec_line_total_cents)
  then show ?thesis
    by (simp only: spec_order_total_def sum_list_addf)
qed

lemma line_total_cents:
  assumes "is_cents (price (ci_product i))"
  shows "total (calculateCartTotals [priced i]) = spec_line_total i"
proof -
  have c: "is_cents (line_subtotal i + line_tax i)"
    using is_cents_line_subtotal [OF assms] by (simp add: is_cents_add line_tax_def)
  have "total (calculateCartTotals (map priced [i]))
      = formatDecimal (line_subtotal i + line_tax i) 2"
    by (simp only: calculateCartTotals_sums) simp
  then show ?thesis
    by (simp add: formatDecimal_cents [OF c] spec_line_total_cents [OF assms])
qed




section \<open>Where prices come from\<close>

text \<open>
  C6 (amended). For every successful checkout, the order lines added to the store carry,
  line by line, the product id and quantity of the cart line and the unit price and tax
  rate of the product record inside the cart line (as the \<open>DECIMAL\<close> columns round them),
  and the line totals and the order's totals are computed from those cart values. The
  store's own product rows are read for their quantity_on_hand only.
\<close>

theorem checkout_prices_from_cart:
  assumes "createOrder e d cashierId items pm nts = (d', r)" and "success r"
  shows "\<exists>order rows. data r = Some order \<and> order_items d' = order_items d @ rows \<and>
     map oi_order_id rows = map (\<lambda>i. o_id order) items \<and>
     map oi_product_id rows = map ci_product_id items \<and>
     map oi_quantity rows = map ci_quantity items \<and>
     map oi_unit_price rows = map (\<lambda>i. sql_round (price (ci_product i))) items \<and>
     map oi_tax_rate rows = map (\<lambda>i. sql_round (tax_rate (ci_product i))) items \<and>
     map oi_line_total rows = map (\<lambda>i. total (calculateCartTotals [priced i])) items \<and>
     o_subtotal order = subtotal (calculateCartTotals (map priced items)) \<and>
     o_tax_total order = tax (calculateCartTotals (map priced items)) \<and>
     o_total order = total (calculateCartTotals (map priced items))"
proof -
  from assms obtain order where "data r = Some order"
    "o_subtotal order = subtotal (calculateCartTotals (map priced items))"
    "o_tax_total order = tax (calculateCartTotals (map priced items))"
    "o_total order = total (calculateCartTotals (map priced items))"
    "order_items d' = order_items d @
       map (\<lambda>i. i\<lparr>oi_unit_price := sql_round (oi_unit_price i),
                  oi_tax_rate := sql_round (oi_tax_rate i),
                  oi_line_total := sql_round (oi_line_total i)\<rparr>)
         (map (line_item (o_id order)) items)"
    by (rule created_order_totals)
  then show ?thesis
    by (intro exI [of _ order] exI [of _ "map (\<lambda>i. i\<lparr>oi_unit_price := sql_round (oi_unit_price i),
                  oi_tax_rate := sql_round (oi_tax_rate i),
                  oi_line_total := sql_round (oi_line_total i)\<rparr>)
         (map (line_item (o_id order)) items)"])
      (simp add: line_item_def comp_def sql_round_cents is_cents_totals)
qed

theorem checkout_prices_from_cart_witness:
  "success (snd (createOrder (calm ''o1'' ''ORD-1'') shop ''u1'' discounted Cash None)) \<and>
   (\<exists>order rows.
      data (snd (createOrder (calm ''o1'' ''ORD-1'') shop ''u1'' discounted Cash None))
        = Some order \<and>
      order_items (fst (createOrder (calm ''o1'' ''ORD-1'') shop ''u1'' discounted Cash None))
        = order_items shop @ rows \<and>
      map oi_unit_price rows = [1] \<and> map oi_tax_rate rows = [0] \<and> o_total order = 2)"
proof -
  let ?R = "createOrder (calm ''o1'' ''ORD-1'') shop ''u1'' discounted Cash None"
  have h2: "?R = (fst ?R, snd ?R)" by simp
  have h3: "success (snd ?R)" by code_simp
  have v: "map (\<lambda>i. sql_round (price (ci_product i))) discounted = [1]"
    "map (\<lambda>i. sql_round (tax_rate (ci_product i))) discounted = [0]"
    "total (calculateCartTotals (map priced discounted)) = 2"
    by code_simp+
  from checkout_prices_from_cart [OF h2 h3] v h3 show ?thesis by auto
qed

text \<open>
  C6 as stated fails: the store holds coffee at 12.99 with 10 percent tax, the cart line
  carries a product with price 1.00 and no tax, and the order line and the order total
  (2.00) follow the cart.
\<close>

theorem checkout_uses_client_price:
  "map price (products shop) = [1299 / 100, 350 / 100] \<and>
   map tax_rate (products shop) = [10, 0] \<and>
   success (snd (createOrder (calm ''o1'' ''ORD-1'') shop ''u1'' discounted Cash None)) \<and>
   map oi_unit_price
     (order_items (fst (createOrder (calm ''o1'' ''ORD-1'') shop ''u1'' discounted Cash None)))
     = [1] \<and>
   map oi_tax_rate
     (order_items (fst (createOrder (calm ''o1'' ''ORD-1'') shop ''u1'' discounted Cash None)))
     = [0] \<and>
   map_option o_total
     (data (snd (createOrder (calm ''o1'' ''ORD-1'') shop ''u1'' discounted Cash None)))
     = Some 2"
  by code_simp

section \<open>A failure after the order header\<close>

lemma map_status_other:
  "oid \<notin> set (map o_id xs) \<Longrightarrow>
   map (\<lambda>r. if o_id r = oid then r\<lparr>status := st\<rparr> else r) xs = xs"
  by (induction xs) auto

text \<open>
  C1 (amended). When the order header has been inserted and the insert of the order items
  fails, \<open>createOrder\<close> returns success = false with "Failed to create order items"; no
  order item and no ledger entry of the attempt exists and the products are unchanged; the
  order header stays in the store, and the soft delete, when its request goes through,
  leaves it with status \<open>cancelled\<close>.
\<close>

theorem failed_items_insert_soft_deletes:
  assumes fk: "order_items_fk d" and ne: "items \<noteq> []" and ce: "client_error e = None"
    and va: "validate_items e d items = None"
    and io: "insert_order e d cashierId (new_order_number e) Completed
       (subtotal (calculateCartTotals (map priced items)))
       (tax (calculateCartTotals (map priced items)))
       (total (calculateCartTotals (map priced items))) pm nts = Inr (d1, order)"
    and ii: "insert_order_items e d1 (map (line_item (o_id order)) items) = Inl msg"
    and sd: "fault e SoftDeleteOrder = None"
  shows "success (snd (createOrder e d cashierId items pm nts)) = False \<and>
     error (snd (createOrder e d cashierId items pm nts)) = Some ''Failed to create order items'' \<and>
     order_items (fst (createOrder e d cashierId items pm nts)) = order_items d \<and>
     inventory_logs (fst (createOrder e d cashierId items pm nts)) = inventory_logs d \<and>
     products (fst (createOrder e d cashierId items pm nts)) = products d \<and>
     orders (fst (createOrder e d cashierId items pm nts))
       = orders d @ [order\<lparr>status := Cancelled\<rparr>]"
proof -
  have d1: "d1 = d\<lparr>orders := orders d @ [order]\<rparr>"
    using fk io by (rule insert_order_fk)
  have fresh: "o_id order \<notin> set (map o_id (orders d))"
    using insert_order_Inr(3,4) [OF io] by simp
  have R: "createOrder e d cashierId items pm nts
      = (soft_delete_order e d1 (o_id order), failure ''Failed to create order items'')"
    using ne ce va io ii by (simp add: createOrder_def Let_def)
  have S: "soft_delete_order e d1 (o_id order)
      = d\<lparr>orders := orders d @ [order\<lparr>status := Cancelled\<rparr>]\<rparr>"
    using sd map_status_other [OF fresh, of Cancelled]
    by (simp add: soft_delete_order_def update_order_status_def d1)
  show ?thesis by (simp add: R S failure_def)
qed

theorem failed_items_insert_soft_deletes_witness:
  "order_items_fk shop \<and>
   success (snd (createOrder (failing [InsertOrderItems] ''o1'' ''ORD-1'') shop ''u1'' two_coffees
                   Cash None)) = False \<and>
   order_items (fst (createOrder (failing [InsertOrderItems] ''o1'' ''ORD-1'') shop ''u1''
                       two_coffees Cash None)) = [] \<and>
   inventory_logs (fst (createOrder (failing [InsertOrderItems] ''o1'' ''ORD-1'') shop ''u1''
                          two_coffees Cash None)) = [] \<and>
   orders (fst (createOrder (failing [InsertOrderItems] ''o1'' ''ORD-1'') shop ''u1''
                  two_coffees Cash None))
     = [\<lparr>o_id = ''o1'', cashier_id = ''u1'', order_number = ''ORD-1'', status = Cancelled,
          o_subtotal = 2598 / 100, o_tax_total = 260 / 100, o_total = 2858 / 100,
          o_payment_method = Cash, o_notes = None\<rparr>]"
proof -
  let ?e = "failing [InsertOrderItems] ''o1'' ''ORD-1''"
  let ?row = "\<lparr>o_id = ''o1'', cashier_id = ''u1'', order_number = ''ORD-1'',
               status = Completed, o_subtotal = 2598 / 100, o_tax_total = 260 / 100,
               o_total = 2858 / 100, o_payment_method = Cash, o_notes = None\<rparr>"
  let ?d1 = "shop\<lparr>orders := [?row]\<rparr>"
  have fk: "order_items_fk shop" by code_simp
  have ne: "two_coffees \<noteq> []" by code_simp
  have ce: "client_error ?e = None" by code_simp
  have va: "validate_items ?e shop two_coffees = None" by code_simp
  have io: "insert_order ?e shop ''u1'' (new_order_number ?e) Completed
       (subtotal (calculateCartTotals (map priced two_coffees)))
       (tax (calculateCartTotals (map priced two_coffees)))
       (total (calculateCartTotals (map priced two_coffees))) Cash None = Inr (?d1, ?row)"
    by code_simp
  have ii: "insert_order_items ?e ?d1 (map (line_item (o_id ?row)) two_coffees)
      = Inl ''connection lost''"
    by code_simp
  have sd: "fault ?e SoftDeleteOrder = None" by code_simp
  have sh: "order_items shop = []" "inventory_logs shop = []" "orders shop = []"
    by (simp_all add: shop_def)
  from failed_items_insert_soft_deletes [OF fk ne ce va io ii sd] fk sh
  show ?thesis by simp
qed

text \<open>
  C1 as stated fails: when the insert of the order items fails, the order header stays in
  the store, with status \<open>cancelled\<close>.
\<close>

theorem failed_checkout_leaves_order_header:
  "orders shop = [] \<and>
   success (snd (createOrder (failing [InsertOrderItems] ''o1'' ''ORD-1'') shop ''u1'' two_coffees
                   Cash None)) = False \<and>
   map o_id (orders (fst (createOrder (failing [InsertOrderItems] ''o1'' ''ORD-1'') shop ''u1''
                            two_coffees Cash None))) = [''o1''] \<and>
   map status (orders (fst (createOrder (failing [InsertOrderItems] ''o1'' ''ORD-1'') shop ''u1''
                              two_coffees Cash None))) = [Cancelled]"
  by code_simp

section \<open>Inventory on checkout and cancellation\<close>

text \<open>
  C3. The ledger entries that reference a sold and then cancelled order should net to zero
  and the stock return to its level before the sale. Evaluated on the example store: the
  checkout of two coffees succeeds, writes no \<open>sale\<close> entry and leaves the stock at 10 (the
  trigger runs when the order header is inserted, when no item of the order exists yet);
  the cancellation then writes one \<open>return\<close> entry of +2 and raises the stock to 12, so
  the entries of the order sum to 2. Where the \<open>increment\<close> call fails the stock stays at
  10 and the entries still sum to 2.
\<close>

theorem sale_and_cancel_do_not_net_to_zero:
  "success (snd (createOrder (calm ''o1'' ''ORD-1'') shop ''u1'' two_coffees Cash None)) \<and>
   stock_of shop ''p1'' = [10] \<and>
   stock_of after_sale ''p1'' = [10] \<and>
   inventory_logs after_sale = [] \<and>
   map status (orders after_sale) = [Completed] \<and>
   success (snd (cancelOrder (calm ''o2'' ''ORD-2'') after_sale ''o1'' ''admin'')) \<and>
   map status (orders after_cancel) = [Cancelled] \<and>
   map il_quantity_change (inventory_logs after_cancel) = [2] \<and>
   order_ledger_sum after_cancel ''o1'' = 2 \<and>
   stock_of after_cancel ''p1'' = [12] \<and>
   order_ledger_sum
     (fst (cancelOrder (failing [RpcIncrement ''p1''] ''o2'' ''ORD-2'') after_sale ''o1'' ''admin''))
     ''o1'' = 2 \<and>
   stock_of
     (fst (cancelOrder (failing [RpcIncrement ''p1''] ''o2'' ''ORD-2'') after_sale ''o1'' ''admin''))
     ''p1'' = [10]"
  by code_simp

text \<open>
  C4. Of two checkouts that each request the whole stock of a product, one should fail with
  insufficient stock. Evaluated one after the other on the example store (five teas in
  stock, five requested each time): both succeed and the stock is still 5, since no
  checkout decrements it.
\<close>

theorem two_checkouts_of_last_stock_both_succeed:
  "stock_of shop ''p2'' = [5] \<and>
   success (snd (createOrder (calm ''o1'' ''ORD-1'') shop ''u1'' five_teas Cash None)) \<and>
   success (snd (createOrder (calm ''o2'' ''ORD-2'')
                   (fst (createOrder (calm ''o1'' ''ORD-1'') shop ''u1'' five_teas Cash None))
                   ''u2'' five_teas Card None)) \<and>
   stock_of (fst (createOrder (calm ''o2'' ''ORD-2'')
                   (fst (createOrder (calm ''o1'' ''ORD-1'') shop ''u1'' five_teas Cash None))
                   ''u2'' five_teas Card None)) ''p2'' = [5] \<and>
   map oi_quantity (order_items (fst (createOrder (calm ''o2'' ''ORD-2'')
                   (fst (createOrder (calm ''o1'' ''ORD-1'') shop ''u1'' five_teas Cash None))
                   ''u2'' five_teas Card None))) = [5, 5]"
  by code_simp

section \<open>Cancellation\<close>

lemma restore_inventory_keeps:
  "orders (restore_inventory e oid uid xs d) = orders d \<and>
   order_items (restore_inventory e oid uid xs d) = order_items d"
proof (induction xs arbitrary: d)
  case Nil
  then show ?case by simp
next
  case (Cons x xs)
  then show ?case
    by (auto simp: Let_def rpc_increment_def insert_inventory_log_def
        split: sum.splits option.splits dest!: update_products_quantity_keeps)
qed

lemma restore_inventory_logs:
  assumes "\<forall>pid. fault e (InsertInventoryLog pid) = None"
  shows "inventory_logs (restore_inventory e oid uid xs d)
     = inventory_logs d @ map (return_log oid uid) xs"
proof (induction xs arbitrary: d)
  case Nil
  then show ?case by simp
next
  case (Cons x xs)
  then show ?case
    using assms
    by (auto simp: Let_def rpc_increment_def insert_inventory_log_def
        split: sum.splits option.splits dest!: update_products_quantity_keeps)
qed

lemma filter_map_status:
  "filter (\<lambda>r. o_id r = oid) (map (\<lambda>r. if o_id r = oid then r\<lparr>status := st\<rparr> else r) xs)
     = map (\<lambda>r. r\<lparr>status := st\<rparr>) (filter (\<lambda>r. o_id r = oid) xs)"
  by (induction xs) auto

lemma cancelOrder_any_status:
  assumes "client_error e = None" and "fault e SelectOrderItems = None"
    and "fault e UpdateOrderStatus = None"
    and "filter (\<lambda>r. o_id r = oid) (orders d) = [ord]"
  shows "snd (cancelOrder e d oid uid)
           = succeeded (ord\<lparr>status := Cancelled\<rparr>) ''Order cancelled and inventory restored''"
    and "fst (cancelOrder e d oid uid)
           = update_order_status
               (restore_inventory e oid uid (filter (\<lambda>i. oi_order_id i = oid) (order_items d)) d)
               oid Cancelled"
    and "filter (\<lambda>r. o_id r = oid) (orders (fst (cancelOrder e d oid uid)))
           = [ord\<lparr>status := Cancelled\<rparr>]"
proof -
  let ?d1 = "restore_inventory e oid uid (filter (\<lambda>i. oi_order_id i = oid) (order_items d)) d"
  have o: "orders ?d1 = orders d" by (simp add: restore_inventory_keeps)
  have f: "filter (\<lambda>r. o_id r = oid) (orders (update_order_status ?d1 oid Cancelled))
      = [ord\<lparr>status := Cancelled\<rparr>]"
    by (simp add: update_order_status_def o filter_map_status assms(4))
  have u: "update_order_status_single e ?d1 oid Cancelled
      = Inr (update_order_status ?d1 oid Cancelled, ord\<lparr>status := Cancelled\<rparr>)"
    using assms(3) by (simp add: update_order_status_single_def Let_def f)
  have R: "cancelOrder e d oid uid
      = (update_order_status ?d1 oid Cancelled,
         succeeded (ord\<lparr>status := Cancelled\<rparr>) ''Order cancelled and inventory restored'')"
    using assms(1,2) by (simp add: cancelOrder_def select_order_items_def Let_def u)
  show "snd (cancelOrder e d oid uid)
           = succeeded (ord\<lparr>status := Cancelled\<rparr>) ''Order cancelled and inventory restored''"
    by (simp add: R)
  show "fst (cancelOrder e d oid uid) = update_order_status ?d1 oid Cancelled"
    by (simp add: R)
  show "filter (\<lambda>r. o_id r = oid) (orders (fst (cancelOrder e d oid uid)))
           = [ord\<lparr>status := Cancelled\<rparr>]"
    by (simp add: R f)
qed




text \<open>
  C9. A cancellation whose restore steps fail should not report success. Evaluated on the
  example store with an environment in which the \<open>increment\<close> call and the insert of the
  \<open>return\<close> entry fail: \<open>cancelOrder\<close> returns success with no error and the message
  "Order cancelled and inventory restored", while products and ledger are unchanged.
\<close>

theorem cancelOrder_swallows_restore_failures:
  "success (snd (cancelOrder (failing [RpcIncrement ''p1'', InsertInventoryLog ''p1''] ''o2'' ''ORD-2'')
                   after_sale ''o1'' ''admin'')) \<and>
   error (snd (cancelOrder (failing [RpcIncrement ''p1'', InsertInventoryLog ''p1''] ''o2'' ''ORD-2'')
                   after_sale ''o1'' ''admin'')) = None \<and>
   message (snd (cancelOrder (failing [RpcIncrement ''p1'', InsertInventoryLog ''p1''] ''o2'' ''ORD-2'')
                   after_sale ''o1'' ''admin''))
     = Some ''Order cancelled and inventory restored'' \<and>
   products (fst (cancelOrder (failing [RpcIncrement ''p1'', InsertInventoryLog ''p1''] ''o2'' ''ORD-2'')
                   after_sale ''o1'' ''admin'')) = products after_sale \<and>
   inventory_logs (fst (cancelOrder (failing [RpcIncrement ''p1'', InsertInventoryLog ''p1''] ''o2'' ''ORD-2'')
                   after_sale ''o1'' ''admin'')) = inventory_logs after_sale"
  by code_simp

section \<open>Stock update\<close>

lemma single_match_update:
  assumes "filter (\<lambda>p. p_id p = pid) xs = [p]"
  shows "map (\<lambda>r. if p_id r = pid then r\<lparr>quantity_on_hand := quantity_on_hand p\<rparr> else r) xs = xs"
proof -
  have "r = p" if "r \<in> set xs" "p_id r = pid" for r
  proof -
    from that have "r \<in> set (filter (\<lambda>p. p_id p = pid) xs)" by simp
    then show ?thesis by (simp add: assms)
  qed
  then show ?thesis by (intro map_idI) auto
qed

lemma updateStock_keeps_products:
  "products (fst (updateStock e d productId quantityChange transactionType userId nts))
     = products d"
  by (auto simp: updateStock_def update_product_quantity_on_hand_def insert_inventory_log_def
      Let_def single_match_update split: option.splits sum.splits list.splits)


end
